theory Spec2Isabelle
  imports Main
begin

section \<open>Strings of the Go library\<close>

text \<open>
  A Go string is a sequence of bytes, here \<^typ>\<open>string\<close>. The literals of the source that
  hold characters beyond ASCII are written as their UTF-8 bytes.
\<close>

definition HasPrefix :: "string \<Rightarrow> string \<Rightarrow> bool" where
  \<comment> \<open>\<open>strings.HasPrefix(s, prefix)\<close>\<close>
  "HasPrefix s p = (take (length p) s = p)"

definition TrimLeft :: "string \<Rightarrow> string \<Rightarrow> string" where
  "TrimLeft s cutset = dropWhile (\<lambda>c. c \<in> set cutset) s"

definition TrimRight :: "string \<Rightarrow> string \<Rightarrow> string" where
  "TrimRight s cutset = rev (dropWhile (\<lambda>c. c \<in> set cutset) (rev s))"

definition Trim :: "string \<Rightarrow> string \<Rightarrow> string" where
  \<comment> \<open>\<open>strings.Trim(s, cutset)\<close> for a cutset of ASCII bytes: the leading and the trailing
      bytes of \<open>s\<close> that are in the cutset are removed (for the one-byte cutset of the
      source the library does \<open>trimLeftByte(trimRightByte(s, c), c)\<close>).\<close>
  "Trim s cutset = TrimLeft (TrimRight s cutset) cutset"

definition ToLower_ascii :: "string \<Rightarrow> string" where
  \<comment> \<open>\<open>strings.ToLower\<close> on ASCII text: the bytes \<open>A\<close> to \<open>Z\<close> move to \<open>a\<close> to \<open>z\<close>, every
      other byte stays. The handlers below take \<open>strings.ToLower\<close> as a parameter; this
      is the function the examples run them with.\<close>
  "ToLower_ascii s =
     map (\<lambda>c. if (65::nat) \<le> of_char c \<and> (of_char c :: nat) \<le> 90
              then char_of ((of_char c :: nat) + 32) else c) s"

section \<open>news.go\<close>

text \<open>
  Error values. The upstream client has its own: the sentinel \<open>nyttop.ErrInvalidSection\<close>
  and any other failure (network, parsing, quota), kept with its text. An error of package
  main is its own sentinel \<open>ErrInvalidSection\<close>, an upstream error handed on as it is, or an
  error of another library (form parsing, JSON, the Slack client).
\<close>

datatype nyttop_error =
    nyttop_ErrInvalidSection
  | nyttop_failure string

datatype error =
    ErrInvalidSection
  | nyttop nyttop_error
  | OtherError string

record Article =
  Title :: string
  Abstract :: string
  URL :: string
  PublishedAt :: string

text \<open>An item of the upstream client (\<open>nyttop.Article\<close>), with the fields the code reads.\<close>

record 't nyttop_Article =
  nyt_Title :: string
  nyt_Abstract :: string
  nyt_ShortURL :: string
  nyt_PublishedAt :: 't

text \<open>
  The upstream client and the time formatting are library code: \<open>TopNStories\<close> takes the
  API key, the section and \<open>topN\<close>; \<open>formatLocal\<close> is
  \<open>t.Local().Format("January 02, 2006")\<close>.
\<close>

record 't NYTimes =
  APIKey :: string
  TopNStories :: "string \<Rightarrow> string \<Rightarrow> int \<Rightarrow> nyttop_error + 't nyttop_Article list"
  formatLocal :: "'t \<Rightarrow> string"

fun TopStories_loop :: "('t \<Rightarrow> string) \<Rightarrow> Article list \<Rightarrow> 't nyttop_Article list \<Rightarrow> Article list" where
  "TopStories_loop fmt result [] = result"
| "TopStories_loop fmt result (a # articles) =
     (if nyt_Title a = [] \<or> nyt_ShortURL a = [] then TopStories_loop fmt result articles
      else TopStories_loop fmt
             (result @ [\<lparr>Title = nyt_Title a, Abstract = nyt_Abstract a, URL = nyt_ShortURL a,
                         PublishedAt = fmt (nyt_PublishedAt a)\<rparr>])
             articles)"

definition TopStories :: "'t NYTimes \<Rightarrow> string \<Rightarrow> int \<Rightarrow> error + Article list" where
  \<comment> \<open>\<open>NYTimes.TopStories\<close> of src/news.go\<close>
  "TopStories nyt section topN =
     (case TopNStories nyt (APIKey nyt) section topN of
        Inl err \<Rightarrow>
          (if err = nyttop_ErrInvalidSection then Inl ErrInvalidSection else Inl (nyttop err))
      | Inr articles \<Rightarrow> Inr (TopStories_loop (formatLocal nyt) [] articles))"

definition SupportedSections :: "string list" where
  "SupportedSections =
     [''home'', ''arts'', ''automobile'', ''books'', ''business'', ''fashion'', ''food'',
      ''health'', ''movies'', ''politics'', ''realestate'', ''science'', ''sports'',
      ''technology'', ''theater'', ''travel'', ''us'', ''world'']"

section \<open>bot.go\<close>

subsection \<open>Messages of the Slack client\<close>

datatype TextBlockObject = TextBlockObject (tb_Type: string) (tb_Text: string)

datatype OptionBlockObject = OptionBlockObject (opt_Text: TextBlockObject) (opt_Value: string)

datatype SelectBlockElement =
  SelectBlockElement (sel_Type: string) (sel_Options: "OptionBlockObject list")

text \<open>
  A block carries its \<open>Type\<close> string and its text; a section block also its accessory
  (\<open>None\<close> for the nil pointer, otherwise the select element the accessory holds).
\<close>

datatype Block =
    HeaderBlock string TextBlockObject
  | SectionBlock string TextBlockObject "SelectBlockElement option"
  | DividerBlock string

datatype ResponseType = ResponseTypeInChannel | ResponseTypeEphemeral

datatype MsgOption =
    MsgOptionResponseURL string ResponseType
  | MsgOptionText string bool
  | MsgOptionBlocks "Block list"

subsection \<open>Effects\<close>

text \<open>
  What a handler or a task does to the world, in order: a line on the process log
  (\<open>log.Println\<close> with its arguments), the call of the news source, the call of
  \<open>PostMessage\<close> with the channel and the options.
\<close>

datatype logarg = Str string | Err error

datatype event =
    Println "logarg list"
  | CallTopStories string int
  | CallPostMessage string "MsgOption list"

text \<open>
  The bot: the \<open>TopStories\<close> method of its news source, the verification token, and the
  Slack client, of which the code uses \<open>PostMessage\<close> and reads only the error it returns.
\<close>

record Bot =
  newsSource :: "string \<Rightarrow> int \<Rightarrow> error + Article list"
  slackVerificationToken :: string
  slackClient :: "string \<Rightarrow> MsgOption list \<Rightarrow> error option"

definition NewBot ::
  "(string \<Rightarrow> int \<Rightarrow> error + Article list) \<Rightarrow> (string \<Rightarrow> MsgOption list \<Rightarrow> error option) \<Rightarrow>
   string \<Rightarrow> Bot" where
  \<comment> \<open>\<open>NewBot\<close>, given the client that \<open>slack.New(slackOAuthToken)\<close> makes\<close>
  "NewBot newsSource' client slackVerificationToken' =
     \<lparr>newsSource = newsSource', slackVerificationToken = slackVerificationToken',
      slackClient = client\<rparr>"

definition PostMessage :: "Bot \<Rightarrow> string \<Rightarrow> MsgOption list \<Rightarrow> event list" where
  \<comment> \<open>the call, and the line logged when it returns an error\<close>
  "PostMessage b channelID options =
     CallPostMessage channelID options #
     (case slackClient b channelID options of
        Some err \<Rightarrow> [Println [Str ''error sending message:'', Err err]]
      | None \<Rightarrow> [])"

definition warning_sign :: string where
  \<comment> \<open>U+26A0 U+FE0F in UTF-8\<close>
  "warning_sign = [CHR 0xE2, CHR 0x9A, CHR 0xA0, CHR 0xEF, CHR 0xB8, CHR 0x8F]"

definition newspaper_sign :: string where
  \<comment> \<open>U+1F5DE in UTF-8\<close>
  "newspaper_sign = [CHR 0xF0, CHR 0x9F, CHR 0x97, CHR 0x9E]"

fun handleTopRequest_loop :: "Block list \<Rightarrow> Article list \<Rightarrow> Block list" where
  "handleTopRequest_loop BlockSet [] = BlockSet"
| "handleTopRequest_loop BlockSet (a # articles) =
     handleTopRequest_loop
       (BlockSet @
        [SectionBlock ''section''
           (TextBlockObject ''mrkdwn''
              (''<'' @ URL a @ ''|'' @ Title a @ ''>'' @ [CHR 0x0A] @ Abstract a))
           None,
         DividerBlock ''divider''])
       articles"

definition handleTopRequest :: "Bot \<Rightarrow> string \<Rightarrow> string \<Rightarrow> string \<Rightarrow> event list" where
  "handleTopRequest b channelID responseURL params0 =
     (let params = Trim params0 '' '';
          params = (if length params = 0 then ''home'' else params)
      in CallTopStories params 3 #
         (case newsSource b params 3 of
            Inl err \<Rightarrow>
              Println [Str ''error requesting top stories:'', Err err] #
              (let errMessage =
                     (if err = ErrInvalidSection
                      then warning_sign @ '' That'' @ [CHR 0x27] @
                           ''s not a valid news section! Try requesting `/news help` to learn how to use this app!''
                      else warning_sign @
                           '' Oops, something went wrong on our side. Try again later!'')
               in PostMessage b channelID
                    [MsgOptionResponseURL responseURL ResponseTypeEphemeral,
                     MsgOptionText errMessage True])
          | Inr articles \<Rightarrow>
              (let BlockSet =
                     handleTopRequest_loop
                       [HeaderBlock ''header''
                          (TextBlockObject ''plain_text''
                             (''Here are the top stories '' @ newspaper_sign))]
                       articles
               in PostMessage b channelID
                    [MsgOptionBlocks BlockSet,
                     MsgOptionResponseURL responseURL ResponseTypeEphemeral])))"

text \<open>
  The section that \<open>handleTopRequest\<close> asks the news source for: what its first two
  statements leave in \<open>params\<close>.
\<close>

abbreviation section_of :: "string \<Rightarrow> string" where
  "section_of params \<equiv> (if Trim params '' '' = [] then ''home'' else Trim params '' '')"

definition handleHelpRequest :: "Bot \<Rightarrow> string \<Rightarrow> string \<Rightarrow> event list" where
  "handleHelpRequest b channelID responseURL =
     (let BlockSet =
            [HeaderBlock ''header'' (TextBlockObject ''plain_text'' ''How to use''),
             DividerBlock ''divider'',
             SectionBlock ''section'' (TextBlockObject ''mrkdwn'' ''Choose a news section'')
               (Some (SelectBlockElement ''static_select''
                  [OptionBlockObject (TextBlockObject ''plain_text'' ''General'') ''home'',
                   OptionBlockObject (TextBlockObject ''plain_text'' ''Arts'') ''arts'',
                   OptionBlockObject (TextBlockObject ''plain_text'' ''Politics'') ''politics'']))]
      in PostMessage b channelID
           [MsgOptionBlocks BlockSet,
            MsgOptionResponseURL responseURL ResponseTypeEphemeral])"

definition processCommand :: "Bot \<Rightarrow> string \<Rightarrow> string \<Rightarrow> string \<Rightarrow> event list" where
  "processCommand b channelID responseURL params =
     (if HasPrefix params ''stories''
      then handleTopRequest b channelID responseURL (drop 7 params)
      else handleHelpRequest b channelID responseURL)"

subsection \<open>The two HTTP handlers\<close>

record SlashCommand =
  Token :: string
  Command :: string
  ChannelID :: string
  ResponseURL :: string
  Text :: string

record BlockAction =
  SelectedOption :: OptionBlockObject

record ActionCallbacks =
  BlockActions :: "BlockAction list"

record Container =
  container_ChannelID :: string

record InteractionCallback =
  ic_Token :: string
  ic_ResponseURL :: string
  ic_Container :: Container
  ic_ActionCallback :: ActionCallbacks

text \<open>
  The library functions the handlers call on the request \<open>r\<close>: \<open>slack.SlashCommandParse\<close>,
  \<open>strings.ToLower\<close>, \<open>r.ParseForm\<close> (giving \<open>r.PostForm\<close>, the values of each key in
  order) and \<open>json.Unmarshal\<close> into an \<open>InteractionCallback\<close>.
\<close>

record 'r library =
  SlashCommandParse :: "'r \<Rightarrow> error + SlashCommand"
  ToLower :: "string \<Rightarrow> string"
  ParseForm :: "'r \<Rightarrow> error + (string \<times> string list) list"
  json_Unmarshal :: "string \<Rightarrow> error + InteractionCallback"

definition Get :: "(string \<times> string list) list \<Rightarrow> string \<Rightarrow> string" where
  \<comment> \<open>\<open>url.Values.Get\<close>: the first value of the key, the empty string when there is none\<close>
  "Get v key = (case map_of v key of None \<Rightarrow> [] | Some [] \<Rightarrow> [] | Some (x # _) \<Rightarrow> x)"

definition ValidateToken :: "SlashCommand \<Rightarrow> string list \<Rightarrow> bool" where
  \<comment> \<open>\<open>SlashCommand.ValidateToken\<close> of the Slack library: the token is one of those given\<close>
  "ValidateToken s verificationTokens = (Token s \<in> set verificationTokens)"

text \<open>A task started by a \<open>go\<close> statement: the function and its arguments.\<close>

datatype task =
    go_processCommand string string string
  | go_handleTopRequest string string string

fun run :: "Bot \<Rightarrow> task \<Rightarrow> event list" where
  "run b (go_processCommand channelID responseURL params) =
     processCommand b channelID responseURL params"
| "run b (go_handleTopRequest channelID responseURL params) =
     handleTopRequest b channelID responseURL params"

text \<open>
  What a handler has done when it returns: the status given to \<open>WriteHeader\<close>, the body
  written (the handlers write none), the lines logged, the tasks started.
\<close>

record reply =
  StatusCode :: nat
  Body :: string
  logged :: "event list"
  started :: "task list"

definition HandleSlashCommand :: "'r library \<Rightarrow> Bot \<Rightarrow> 'r \<Rightarrow> reply" where
  "HandleSlashCommand lib b r =
     (case SlashCommandParse lib r of
        Inl err \<Rightarrow>
          \<lparr>StatusCode = 500, Body = [],
           logged = [Println [Str ''error parsing slash command:'', Err err]], started = []\<rparr>
      | Inr s \<Rightarrow>
          if \<not> ValidateToken s [slackVerificationToken b] then
            \<lparr>StatusCode = 401, Body = [], logged = [Println [Str ''invalid token'']],
             started = []\<rparr>
          else if Command s \<noteq> ''/news'' then
            \<lparr>StatusCode = 400, Body = [],
             logged = [Println [Str ''unexpected slash command:'', Str (Command s)]],
             started = []\<rparr>
          else
            \<lparr>StatusCode = 200, Body = [], logged = [],
             started = [go_processCommand (ChannelID s) (ResponseURL s) (ToLower lib (Text s))]\<rparr>)"

definition HandleHelpInteraction :: "'r library \<Rightarrow> Bot \<Rightarrow> 'r \<Rightarrow> reply" where
  "HandleHelpInteraction lib b r =
     (case ParseForm lib r of
        Inl err \<Rightarrow>
          \<lparr>StatusCode = 400, Body = [],
           logged = [Println [Str ''error parsing interactive request:'', Err err]],
           started = []\<rparr>
      | Inr PostForm \<Rightarrow>
          (let payload = Get PostForm ''payload'' in
           case json_Unmarshal lib payload of
             Inl err \<Rightarrow>
               \<lparr>StatusCode = 400, Body = [],
                logged = [Println [Str ''error parsing interactive request:'', Err err]],
                started = []\<rparr>
           | Inr interaction \<Rightarrow>
               if ic_Token interaction \<noteq> slackVerificationToken b then
                 \<lparr>StatusCode = 401, Body = [], logged = [Println [Str ''invalid token'']],
                  started = []\<rparr>
               else if length (BlockActions (ic_ActionCallback interaction)) \<noteq> 1 then
                 \<lparr>StatusCode = 400, Body = [],
                  logged = [Println [Str ''unexpected amount of actions received'']],
                  started = []\<rparr>
               else
                 (let action = BlockActions (ic_ActionCallback interaction) ! 0 in
                  \<lparr>StatusCode = 200, Body = [], logged = [],
                   started = [go_handleTopRequest (container_ChannelID (ic_Container interaction))
                                (ic_ResponseURL interaction)
                                (opt_Value (SelectedOption action))]\<rparr>)))"

text \<open>
  Everything the handling of one request does: the lines the handler logs, then what the
  tasks it started do.
\<close>

definition trace :: "Bot \<Rightarrow> reply \<Rightarrow> event list" where
  "trace b rp = logged rp @ concat (map (run b) (started rp))"

section \<open>Reading a trace\<close>

text \<open>The calls of the news source in a trace, and the calls of \<open>PostMessage\<close>.\<close>

fun fetches :: "event list \<Rightarrow> (string \<times> int) list" where
  "fetches [] = []"
| "fetches (CallTopStories section topN # es) = (section, topN) # fetches es"
| "fetches (Println _ # es) = fetches es"
| "fetches (CallPostMessage _ _ # es) = fetches es"

fun posts :: "event list \<Rightarrow> (string \<times> MsgOption list) list" where
  "posts [] = []"
| "posts (CallPostMessage channelID options # es) = (channelID, options) # posts es"
| "posts (Println _ # es) = posts es"
| "posts (CallTopStories _ _ # es) = posts es"

text \<open>
  The Slack client applies the options of a call in order. The response type of the
  message is the one of the last \<open>MsgOptionResponseURL\<close>; with none the message is an
  ordinary post that the whole channel sees.
\<close>

fun responseType :: "MsgOption list \<Rightarrow> ResponseType option" where
  "responseType [] = None"
| "responseType (MsgOptionResponseURL _ rt # options) =
     (case responseType options of None \<Rightarrow> Some rt | Some rt' \<Rightarrow> Some rt')"
| "responseType (MsgOptionText _ _ # options) = responseType options"
| "responseType (MsgOptionBlocks _ # options) = responseType options"

definition ephemeral :: "event list \<Rightarrow> bool" where
  \<comment> \<open>every message posted in the trace is ephemeral\<close>
  "ephemeral es = list_all (\<lambda>p. responseType (snd p) = Some ResponseTypeEphemeral) (posts es)"

fun blocks_of :: "MsgOption list \<Rightarrow> Block list" where
  "blocks_of [] = []"
| "blocks_of (MsgOptionBlocks bs # options) = bs @ blocks_of options"
| "blocks_of (MsgOptionResponseURL _ _ # options) = blocks_of options"
| "blocks_of (MsgOptionText _ _ # options) = blocks_of options"

fun texts_of :: "MsgOption list \<Rightarrow> string list" where
  "texts_of [] = []"
| "texts_of (MsgOptionText txt _ # options) = txt # texts_of options"
| "texts_of (MsgOptionResponseURL _ _ # options) = texts_of options"
| "texts_of (MsgOptionBlocks _ # options) = texts_of options"

text \<open>The values of the options a block offers for selection.\<close>

fun option_values :: "Block \<Rightarrow> string list" where
  "option_values (SectionBlock _ _ (Some sel)) = map opt_Value (sel_Options sel)"
| "option_values (SectionBlock _ _ None) = []"
| "option_values (HeaderBlock _ _) = []"
| "option_values (DividerBlock _) = []"

definition offered_values :: "event list \<Rightarrow> string list" where
  "offered_values es = concat (map option_values (concat (map (blocks_of \<circ> snd) (posts es))))"

section \<open>The wording of the specification\<close>

text \<open>
  The specification speaks of trimming whitespace. These two definitions follow its words,
  not the code: whitespace is the ASCII set of tab, line feed, vertical tab, form feed,
  carriage return and space.
\<close>

definition spec_whitespace :: "char \<Rightarrow> bool" where
  "spec_whitespace c = (c \<in> set [CHR 0x09, CHR 0x0A, CHR 0x0B, CHR 0x0C, CHR 0x0D, CHR 0x20])"

definition spec_trim_whitespace :: "string \<Rightarrow> string" where
  "spec_trim_whitespace s = dropWhile spec_whitespace (rev (dropWhile spec_whitespace (rev s)))"

section \<open>Example values\<close>

definition example_items :: "nat nyttop_Article list" where
  "example_items =
     [\<lparr>nyt_Title = ''First'', nyt_Abstract = ''one'', nyt_ShortURL = ''https://nyti.ms/1'',
       nyt_PublishedAt = 0\<rparr>,
      \<lparr>nyt_Title = [], nyt_Abstract = ''two'', nyt_ShortURL = ''https://nyti.ms/2'',
       nyt_PublishedAt = 1\<rparr>,
      \<lparr>nyt_Title = ''Third'', nyt_Abstract = ''three'', nyt_ShortURL = [],
       nyt_PublishedAt = 2\<rparr>,
      \<lparr>nyt_Title = ''Fourth'', nyt_Abstract = [], nyt_ShortURL = ''https://nyti.ms/4'',
       nyt_PublishedAt = 3\<rparr>]"

text \<open>
  An upstream that knows the section \<open>arts\<close>, fails on \<open>home\<close> and reports every other
  section as invalid.
\<close>

definition example_nyt :: "nat NYTimes" where
  "example_nyt =
     \<lparr>APIKey = ''key'',
      TopNStories = (\<lambda>key section topN.
        if section = ''arts'' then Inr example_items
        else if section = ''home'' then Inl (nyttop_failure ''timeout'')
        else Inl nyttop_ErrInvalidSection),
      formatLocal = (\<lambda>t. ''January 02, 2006'')\<rparr>"

definition example_bot :: Bot where
  "example_bot = NewBot (TopStories example_nyt) (\<lambda>channelID options. None) ''secret''"

definition example_interaction :: "string \<Rightarrow> string list \<Rightarrow> InteractionCallback" where
  "example_interaction tok vals =
     \<lparr>ic_Token = tok, ic_ResponseURL = ''https://hooks.example/r'',
      ic_Container = \<lparr>container_ChannelID = ''C1''\<rparr>,
      ic_ActionCallback =
        \<lparr>BlockActions =
           map (\<lambda>v. \<lparr>SelectedOption =
                        OptionBlockObject (TextBlockObject ''plain_text'' v) v\<rparr>) vals\<rparr>\<rparr>"

text \<open>
  An example request is what the two parsers make of it. The example JSON decoder knows
  four payloads by name and rejects every other text.
\<close>

type_synonym example_request = "(error + SlashCommand) \<times> (error + (string \<times> string list) list)"

definition example_lib :: "example_request library" where
  "example_lib =
     \<lparr>SlashCommandParse = fst, ToLower = ToLower_ascii, ParseForm = snd,
      json_Unmarshal = (\<lambda>payload.
        if payload = ''one-action'' then Inr (example_interaction ''secret'' [''arts''])
        else if payload = ''no-action'' then Inr (example_interaction ''secret'' [])
        else if payload = ''two-actions'' then Inr (example_interaction ''secret'' [''arts'', ''home''])
        else if payload = ''bad-token'' then Inr (example_interaction ''guess'' [''arts''])
        else Inl (OtherError ''unexpected end of JSON input''))\<rparr>"

definition example_slash :: "string \<Rightarrow> string \<Rightarrow> string \<Rightarrow> example_request" where
  "example_slash tok cmd txt =
     (Inr \<lparr>Token = tok, Command = cmd, ChannelID = ''C1'',
           ResponseURL = ''https://hooks.example/r'', Text = txt\<rparr>,
      Inl (OtherError ''no form''))"

definition example_callback :: "string \<Rightarrow> example_request" where
  "example_callback payload =
     (Inl (OtherError ''no slash command''), Inr [(''payload'', [payload])])"

section \<open>Trimming\<close>

lemma TrimRight_decomp:
  "s = TrimRight s cs @ rev (takeWhile (\<lambda>c. c \<in> set cs) (rev s))"
proof -
  have "rev s = takeWhile (\<lambda>c. c \<in> set cs) (rev s) @ dropWhile (\<lambda>c. c \<in> set cs) (rev s)"
    by simp
  then have "rev (rev s) =
      rev (takeWhile (\<lambda>c. c \<in> set cs) (rev s) @ dropWhile (\<lambda>c. c \<in> set cs) (rev s))"
    by (rule arg_cong)
  then show ?thesis
    by (simp only: rev_rev_ident rev_append TrimRight_def)
qed

lemma Trim_decomp:
  "s = takeWhile (\<lambda>c. c \<in> set cs) (TrimRight s cs) @ Trim s cs @
       rev (takeWhile (\<lambda>c. c \<in> set cs) (rev s))"
proof -
  have "TrimRight s cs = takeWhile (\<lambda>c. c \<in> set cs) (TrimRight s cs) @ Trim s cs"
    by (simp only: Trim_def TrimLeft_def takeWhile_dropWhile_id)
  with TrimRight_decomp [of s cs] show ?thesis
    by (metis append.assoc)
qed

lemma TrimRight_Nil_iff: "TrimRight s cs = [] \<longleftrightarrow> set s \<subseteq> set cs"
  unfolding TrimRight_def by (auto simp: dropWhile_eq_Nil_conv)

lemma Trim_hd: "Trim s cs \<noteq> [] \<Longrightarrow> hd (Trim s cs) \<notin> set cs"
  unfolding Trim_def TrimLeft_def by (rule hd_dropWhile)

lemma TrimRight_last: "TrimRight s cs \<noteq> [] \<Longrightarrow> last (TrimRight s cs) \<notin> set cs"
proof -
  assume "TrimRight s cs \<noteq> []"
  then have ne: "dropWhile (\<lambda>c. c \<in> set cs) (rev s) \<noteq> []"
    by (simp add: TrimRight_def)
  then have "hd (dropWhile (\<lambda>c. c \<in> set cs) (rev s)) \<notin> set cs"
    by (rule hd_dropWhile)
  with ne show ?thesis
    by (simp add: TrimRight_def last_rev)
qed

lemma Trim_Nil_iff: "Trim s cs = [] \<longleftrightarrow> set s \<subseteq> set cs"
proof
  assume "set s \<subseteq> set cs"
  then have "TrimRight s cs = []" by (simp only: TrimRight_Nil_iff)
  then show "Trim s cs = []" by (simp add: Trim_def TrimLeft_def)
next
  assume e: "Trim s cs = []"
  show "set s \<subseteq> set cs"
  proof (rule ccontr)
    assume "\<not> set s \<subseteq> set cs"
    then have ne: "TrimRight s cs \<noteq> []" by (simp only: TrimRight_Nil_iff not_False_eq_True)
    then have l: "last (TrimRight s cs) \<notin> set cs" by (rule TrimRight_last)
    from e have "\<forall>x \<in> set (TrimRight s cs). x \<in> set cs"
      by (simp add: Trim_def TrimLeft_def dropWhile_eq_Nil_conv)
    with ne l show False using last_in_set by blast
  qed
qed

lemma last_dropWhile_ne: "dropWhile P xs \<noteq> [] \<Longrightarrow> last (dropWhile P xs) = last xs"
  by (induction xs) (auto split: if_splits)

lemma Trim_last: "Trim s cs \<noteq> [] \<Longrightarrow> last (Trim s cs) \<notin> set cs"
proof -
  assume ne: "Trim s cs \<noteq> []"
  then have ne': "TrimRight s cs \<noteq> []" by (auto simp: Trim_def TrimLeft_def)
  from ne have "last (Trim s cs) = last (TrimRight s cs)"
    unfolding Trim_def TrimLeft_def by (rule last_dropWhile_ne)
  with TrimRight_last [OF ne'] show ?thesis by simp
qed

lemma dropWhile_hd_id: "xs \<noteq> [] \<Longrightarrow> \<not> P (hd xs) \<Longrightarrow> dropWhile P xs = xs"
  by (cases xs) simp_all

lemma Trim_Nil: "Trim [] cs = []"
  by (simp add: Trim_def TrimLeft_def TrimRight_def)

lemma Trim_idem: "Trim (Trim s cs) cs = Trim s cs"
proof (cases "Trim s cs = []")
  case True
  show ?thesis unfolding True by (rule Trim_Nil)
next
  case False
  then have "last (Trim s cs) \<notin> set cs" by (rule Trim_last)
  with False have h: "hd (rev (Trim s cs)) \<notin> set cs" by (simp add: hd_rev)
  from False have "rev (Trim s cs) \<noteq> []" by (simp only: rev_is_Nil_conv not_False_eq_True)
  then have "dropWhile (\<lambda>c. c \<in> set cs) (rev (Trim s cs)) = rev (Trim s cs)"
    using h by (rule dropWhile_hd_id)
  then have "TrimRight (Trim s cs) cs = Trim s cs"
    by (simp only: TrimRight_def rev_rev_ident)
  then have "Trim (Trim s cs) cs = TrimLeft (Trim s cs) cs"
    by (simp only: Trim_def)
  also have "\<dots> = Trim s cs"
    by (simp only: Trim_def TrimLeft_def dropWhile_idem)
  finally show ?thesis .
qed

section \<open>The loops as list functions\<close>

lemma TopStories_loop_eq:
  "TopStories_loop fmt result articles =
     result @ map (\<lambda>a. \<lparr>Title = nyt_Title a, Abstract = nyt_Abstract a, URL = nyt_ShortURL a,
                         PublishedAt = fmt (nyt_PublishedAt a)\<rparr>)
                (filter (\<lambda>a. \<not> (nyt_Title a = [] \<or> nyt_ShortURL a = [])) articles)"
  by (induction articles arbitrary: result) auto

lemma handleTopRequest_loop_eq:
  "handleTopRequest_loop BlockSet articles =
     BlockSet @ concat (map (\<lambda>a. [SectionBlock ''section''
           (TextBlockObject ''mrkdwn''
              (''<'' @ URL a @ ''|'' @ Title a @ ''>'' @ [CHR 0x0A] @ Abstract a))
           None,
         DividerBlock ''divider'']) articles)"
  by (induction articles arbitrary: BlockSet) simp_all

lemma handleTopRequest_loop_length:
  "length (handleTopRequest_loop BlockSet articles) = length BlockSet + 2 * length articles"
  by (induction articles arbitrary: BlockSet) simp_all

section \<open>Traces of the three request functions\<close>

lemma fetches_PostMessage: "fetches (PostMessage b channelID options) = []"
  by (simp add: PostMessage_def split: option.split)

lemma posts_PostMessage: "posts (PostMessage b channelID options) = [(channelID, options)]"
  by (simp add: PostMessage_def split: option.split)

lemma handleTopRequest_Inr:
  assumes "newsSource b (if Trim params '' '' = [] then ''home'' else Trim params '' '') 3
           = Inr articles"
  shows "handleTopRequest b channelID responseURL params =
     CallTopStories (if Trim params '' '' = [] then ''home'' else Trim params '' '') 3 #
     PostMessage b channelID
       [MsgOptionBlocks
          (handleTopRequest_loop
             [HeaderBlock ''header''
                (TextBlockObject ''plain_text'' (''Here are the top stories '' @ newspaper_sign))]
             articles),
        MsgOptionResponseURL responseURL ResponseTypeEphemeral]"
  using assms by (simp add: handleTopRequest_def Let_def)

lemma handleTopRequest_Inl:
  assumes "newsSource b (if Trim params '' '' = [] then ''home'' else Trim params '' '') 3
           = Inl err"
  shows "handleTopRequest b channelID responseURL params =
     CallTopStories (if Trim params '' '' = [] then ''home'' else Trim params '' '') 3 #
     Println [Str ''error requesting top stories:'', Err err] #
     PostMessage b channelID
       [MsgOptionResponseURL responseURL ResponseTypeEphemeral,
        MsgOptionText
          (if err = ErrInvalidSection
           then warning_sign @ '' That'' @ [CHR 0x27] @
                ''s not a valid news section! Try requesting `/news help` to learn how to use this app!''
           else warning_sign @ '' Oops, something went wrong on our side. Try again later!'')
          True]"
  using assms by (simp add: handleTopRequest_def Let_def)

lemma fetches_handleTopRequest:
  "fetches (handleTopRequest b channelID responseURL params) =
     [(if Trim params '' '' = [] then ''home'' else Trim params '' '', 3)]"
proof (cases "newsSource b (if Trim params '' '' = [] then ''home'' else Trim params '' '') 3")
  case (Inl err)
  show ?thesis
    unfolding handleTopRequest_Inl [OF Inl] by (simp add: fetches_PostMessage)
next
  case (Inr articles)
  show ?thesis
    unfolding handleTopRequest_Inr [OF Inr] by (simp add: fetches_PostMessage)
qed

lemma posts_handleHelpRequest:
  "posts (handleHelpRequest b channelID responseURL) =
     [(channelID,
       [MsgOptionBlocks
          [HeaderBlock ''header'' (TextBlockObject ''plain_text'' ''How to use''),
           DividerBlock ''divider'',
           SectionBlock ''section'' (TextBlockObject ''mrkdwn'' ''Choose a news section'')
             (Some (SelectBlockElement ''static_select''
                [OptionBlockObject (TextBlockObject ''plain_text'' ''General'') ''home'',
                 OptionBlockObject (TextBlockObject ''plain_text'' ''Arts'') ''arts'',
                 OptionBlockObject (TextBlockObject ''plain_text'' ''Politics'') ''politics'']))],
        MsgOptionResponseURL responseURL ResponseTypeEphemeral])]"
  by (simp add: handleHelpRequest_def Let_def posts_PostMessage)

lemma fetches_handleHelpRequest: "fetches (handleHelpRequest b channelID responseURL) = []"
  by (simp add: handleHelpRequest_def Let_def fetches_PostMessage)

section \<open>The help menu and the supported sections\<close>

text \<open>
  Claim C10. The help menu offers the values \<open>home\<close>, \<open>arts\<close> and \<open>politics\<close>, in this
  order, and each of them is in the list that \<open>SupportedSections\<close> returns.
\<close>

theorem help_menu_values_supported:
  "offered_values (handleHelpRequest b channelID responseURL) = [''home'', ''arts'', ''politics'']
   \<and> set (offered_values (handleHelpRequest b channelID responseURL)) \<subseteq> set SupportedSections"
  by (simp add: offered_values_def posts_handleHelpRequest SupportedSections_def)

theorem help_menu_values_supported_witness:
  "offered_values (handleHelpRequest example_bot ''C1'' ''https://hooks.example/r'')
     = [''home'', ''arts'', ''politics'']
   \<and> set (offered_values (handleHelpRequest example_bot ''C1'' ''https://hooks.example/r''))
       \<subseteq> set SupportedSections"
  by (rule help_menu_values_supported)

section \<open>The news gateway\<close>

lemma TopStories_Inl:
  "TopNStories nyt (APIKey nyt) section topN = Inl e \<Longrightarrow>
   TopStories nyt section topN =
     Inl (if e = nyttop_ErrInvalidSection then ErrInvalidSection else nyttop e)"
  by (simp add: TopStories_def)

lemma TopStories_Inr:
  "TopNStories nyt (APIKey nyt) section topN = Inr items \<Longrightarrow>
   TopStories nyt section topN =
     Inr (map (\<lambda>a. \<lparr>Title = nyt_Title a, Abstract = nyt_Abstract a, URL = nyt_ShortURL a,
                       PublishedAt = formatLocal nyt (nyt_PublishedAt a)\<rparr>)
            (filter (\<lambda>a. \<not> (nyt_Title a = [] \<or> nyt_ShortURL a = [])) items))"
  by (simp add: TopStories_def TopStories_loop_eq)

lemma posts_handleTopRequest_Inr:
  assumes "newsSource b (section_of params) 3 = Inr articles"
  shows "posts (handleTopRequest b channelID responseURL params) =
     [(channelID,
       [MsgOptionBlocks
          (HeaderBlock ''header''
             (TextBlockObject ''plain_text'' (''Here are the top stories '' @ newspaper_sign)) #
           concat (map (\<lambda>a. [SectionBlock ''section''
                                (TextBlockObject ''mrkdwn''
                                   (''<'' @ URL a @ ''|'' @ Title a @ ''>'' @ [CHR 0x0A] @ Abstract a))
                                None,
                              DividerBlock ''divider'']) articles)),
        MsgOptionResponseURL responseURL ResponseTypeEphemeral])]"
  unfolding handleTopRequest_Inr [OF assms]
  by (simp add: posts_PostMessage handleTopRequest_loop_eq)

lemma posts_handleTopRequest_Inl:
  assumes "newsSource b (section_of params) 3 = Inl err"
  shows "posts (handleTopRequest b channelID responseURL params) =
     [(channelID,
       [MsgOptionResponseURL responseURL ResponseTypeEphemeral,
        MsgOptionText
          (if err = ErrInvalidSection
           then warning_sign @ '' That'' @ [CHR 0x27] @
                ''s not a valid news section! Try requesting `/news help` to learn how to use this app!''
           else warning_sign @ '' Oops, something went wrong on our side. Try again later!'')
          True])]"
  unfolding handleTopRequest_Inl [OF assms]
  by (simp add: posts_PostMessage)

text \<open>
  Claim C3. When the upstream client returns items, \<open>TopStories\<close> of src/news.go (the
  revision with the check of title and link, and with \<open>PublishedAt\<close>) returns
  the articles made of the items that have both a title and a link, in the order of the
  upstream: an item whose title or whose link is empty is left out, so no returned
  article has an empty title or link. The message that \<open>handleTopRequest\<close> then posts
  renders exactly these articles.
\<close>

theorem TopStories_leaves_out_incomplete_items:
  assumes "TopNStories nyt (APIKey nyt) section topN = Inr items"
  shows "TopStories nyt section topN =
           Inr (map (\<lambda>a. \<lparr>Title = nyt_Title a, Abstract = nyt_Abstract a,
                             URL = nyt_ShortURL a,
                             PublishedAt = formatLocal nyt (nyt_PublishedAt a)\<rparr>)
                  (filter (\<lambda>a. \<not> (nyt_Title a = [] \<or> nyt_ShortURL a = [])) items))
         \<and> (\<exists>result. TopStories nyt section topN = Inr result
               \<and> list_all (\<lambda>r. Title r \<noteq> [] \<and> URL r \<noteq> []) result)
         \<and> (section = section_of params \<and> topN = 3 \<longrightarrow>
              posts (handleTopRequest (NewBot (TopStories nyt) client tok)
                       channelID responseURL params) =
              [(channelID,
                [MsgOptionBlocks
                   (HeaderBlock ''header''
                      (TextBlockObject ''plain_text''
                         (''Here are the top stories '' @ newspaper_sign)) #
                    concat (map (\<lambda>a. [SectionBlock ''section''
                                         (TextBlockObject ''mrkdwn''
                                            (''<'' @ nyt_ShortURL a @ ''|'' @ nyt_Title a @ ''>'' @
                                             [CHR 0x0A] @ nyt_Abstract a))
                                         None,
                                       DividerBlock ''divider''])
                              (filter (\<lambda>a. \<not> (nyt_Title a = [] \<or> nyt_ShortURL a = []))
                                 items))),
                 MsgOptionResponseURL responseURL ResponseTypeEphemeral])])"
proof (intro conjI impI)
  show eq: "TopStories nyt section topN =
           Inr (map (\<lambda>a. \<lparr>Title = nyt_Title a, Abstract = nyt_Abstract a,
                             URL = nyt_ShortURL a,
                             PublishedAt = formatLocal nyt (nyt_PublishedAt a)\<rparr>)
                  (filter (\<lambda>a. \<not> (nyt_Title a = [] \<or> nyt_ShortURL a = [])) items))"
    using assms by (rule TopStories_Inr)
  show "\<exists>result. TopStories nyt section topN = Inr result
               \<and> list_all (\<lambda>r. Title r \<noteq> [] \<and> URL r \<noteq> []) result"
    unfolding eq by (simp add: list_all_iff)
next
  assume a: "section = section_of params \<and> topN = 3"
  have "newsSource (NewBot (TopStories nyt) client tok) (section_of params) 3 =
        Inr (map (\<lambda>a. \<lparr>Title = nyt_Title a, Abstract = nyt_Abstract a,
                             URL = nyt_ShortURL a,
                             PublishedAt = formatLocal nyt (nyt_PublishedAt a)\<rparr>)
                  (filter (\<lambda>a. \<not> (nyt_Title a = [] \<or> nyt_ShortURL a = [])) items))"
    using TopStories_Inr [OF assms] a by (simp add: NewBot_def)
  from posts_handleTopRequest_Inr [OF this]
  show "posts (handleTopRequest (NewBot (TopStories nyt) client tok)
                       channelID responseURL params) =
              [(channelID,
                [MsgOptionBlocks
                   (HeaderBlock ''header''
                      (TextBlockObject ''plain_text''
                         (''Here are the top stories '' @ newspaper_sign)) #
                    concat (map (\<lambda>a. [SectionBlock ''section''
                                         (TextBlockObject ''mrkdwn''
                                            (''<'' @ nyt_ShortURL a @ ''|'' @ nyt_Title a @ ''>'' @
                                             [CHR 0x0A] @ nyt_Abstract a))
                                         None,
                                       DividerBlock ''divider''])
                              (filter (\<lambda>a. \<not> (nyt_Title a = [] \<or> nyt_ShortURL a = []))
                                 items))),
                 MsgOptionResponseURL responseURL ResponseTypeEphemeral])]"
    by (simp add: comp_def)
qed

theorem TopStories_leaves_out_incomplete_items_witness:
  "TopStories example_nyt ''arts'' 3 =
     Inr [\<lparr>Title = ''First'', Abstract = ''one'', URL = ''https://nyti.ms/1'',
           PublishedAt = ''January 02, 2006''\<rparr>,
          \<lparr>Title = ''Fourth'', Abstract = [], URL = ''https://nyti.ms/4'',
           PublishedAt = ''January 02, 2006''\<rparr>]
   \<and> concat (map (blocks_of \<circ> snd)
         (posts (handleTopRequest example_bot ''C1'' ''https://hooks.example/r'' '' arts ''))) =
       [HeaderBlock ''header''
          (TextBlockObject ''plain_text'' (''Here are the top stories '' @ newspaper_sign)),
        SectionBlock ''section''
          (TextBlockObject ''mrkdwn'' (''<https://nyti.ms/1|First>'' @ [CHR 0x0A] @ ''one'')) None,
        DividerBlock ''divider'',
        SectionBlock ''section''
          (TextBlockObject ''mrkdwn'' (''<https://nyti.ms/4|Fourth>'' @ [CHR 0x0A])) None,
        DividerBlock ''divider'']"
proof -
  have h: "TopNStories example_nyt (APIKey example_nyt) ''arts'' 3 = Inr example_items"
    by (simp add: example_nyt_def)
  have s: "Trim '' arts '' '' '' = ''arts''"
    by (simp add: Trim_def TrimLeft_def TrimRight_def)
  from TopStories_leaves_out_incomplete_items
         [of example_nyt "''arts''" 3 example_items "'' arts ''"
            "\<lambda>channelID options. None" "''secret''" "''C1''" "''https://hooks.example/r''", OF h]
  show ?thesis
    unfolding example_bot_def by (simp add: s example_items_def example_nyt_def)
qed

section \<open>Rendering the top stories\<close>

text \<open>
  Claim C4. When the news source returns k articles, \<open>handleTopRequest\<close> posts one message
  whose blocks are the header block followed, for each article in order, by its section
  block and a divider block: 1 + 2k blocks. For no article the header block is the only
  block.
\<close>

theorem top_stories_blocks:
  assumes "newsSource b (section_of params) 3 = Inr articles"
  shows "posts (handleTopRequest b channelID responseURL params) =
           [(channelID,
             [MsgOptionBlocks
                (HeaderBlock ''header''
                   (TextBlockObject ''plain_text''
                      (''Here are the top stories '' @ newspaper_sign)) #
                 concat (map (\<lambda>a. [SectionBlock ''section''
                                      (TextBlockObject ''mrkdwn''
                                         (''<'' @ URL a @ ''|'' @ Title a @ ''>'' @ [CHR 0x0A] @
                                          Abstract a))
                                      None,
                                    DividerBlock ''divider'']) articles)),
              MsgOptionResponseURL responseURL ResponseTypeEphemeral])]
         \<and> map (length \<circ> blocks_of \<circ> snd)
               (posts (handleTopRequest b channelID responseURL params)) =
             [1 + 2 * length articles]
         \<and> (articles = [] \<longrightarrow>
              map (blocks_of \<circ> snd) (posts (handleTopRequest b channelID responseURL params)) =
              [[HeaderBlock ''header''
                  (TextBlockObject ''plain_text''
                     (''Here are the top stories '' @ newspaper_sign))]])"
  unfolding posts_handleTopRequest_Inr [OF assms]
  by (simp add: length_concat comp_def sum_list_triv)

theorem top_stories_blocks_witness:
  "map (length \<circ> blocks_of \<circ> snd)
     (posts (handleTopRequest example_bot ''C1'' ''https://hooks.example/r'' ''arts'')) = [5]"
proof -
  have s: "Trim ''arts'' '' '' = ''arts''"
    by (simp add: Trim_def TrimLeft_def TrimRight_def)
  have h: "newsSource example_bot (section_of ''arts'') 3 =
           Inr [\<lparr>Title = ''First'', Abstract = ''one'', URL = ''https://nyti.ms/1'',
                 PublishedAt = ''January 02, 2006''\<rparr>,
                \<lparr>Title = ''Fourth'', Abstract = [], URL = ''https://nyti.ms/4'',
                 PublishedAt = ''January 02, 2006''\<rparr>]"
    by (simp add: s example_bot_def NewBot_def TopStories_def example_nyt_def example_items_def)
  from top_stories_blocks [OF h, of "''C1''" "''https://hooks.example/r''"]
  show ?thesis by simp
qed

section \<open>Failure of the news source\<close>

text \<open>
  Claim C5. When the news source fails, \<open>handleTopRequest\<close> posts one ephemeral text
  message and no blocks. The text is the pointer to the help exactly when the error is
  \<open>ErrInvalidSection\<close>, and the invitation to try again later for every other error.
\<close>

theorem fetch_failure_message:
  assumes "newsSource b (section_of params) 3 = Inl err"
  shows "posts (handleTopRequest b channelID responseURL params) =
           [(channelID,
             [MsgOptionResponseURL responseURL ResponseTypeEphemeral,
              MsgOptionText
                (if err = ErrInvalidSection
                 then warning_sign @ '' That'' @ [CHR 0x27] @
                      ''s not a valid news section! Try requesting `/news help` to learn how to use this app!''
                 else warning_sign @ '' Oops, something went wrong on our side. Try again later!'')
                True])]
         \<and> (concat (map (texts_of \<circ> snd) (posts (handleTopRequest b channelID responseURL params))) =
              [warning_sign @ '' That'' @ [CHR 0x27] @
               ''s not a valid news section! Try requesting `/news help` to learn how to use this app!''])
             = (err = ErrInvalidSection)
         \<and> (concat (map (texts_of \<circ> snd) (posts (handleTopRequest b channelID responseURL params))) =
              [warning_sign @ '' Oops, something went wrong on our side. Try again later!''])
             = (err \<noteq> ErrInvalidSection)
         \<and> concat (map (blocks_of \<circ> snd) (posts (handleTopRequest b channelID responseURL params)))
             = []
         \<and> ephemeral (handleTopRequest b channelID responseURL params)"
  by (simp add: ephemeral_def posts_handleTopRequest_Inl [OF assms])

theorem fetch_failure_message_witness:
  "concat (map (texts_of \<circ> snd)
     (posts (handleTopRequest example_bot ''C1'' ''https://hooks.example/r'' ''sports''))) =
     [warning_sign @ '' That'' @ [CHR 0x27] @
      ''s not a valid news section! Try requesting `/news help` to learn how to use this app!'']
   \<and> concat (map (texts_of \<circ> snd)
     (posts (handleTopRequest example_bot ''C1'' ''https://hooks.example/r'' []))) =
     [warning_sign @ '' Oops, something went wrong on our side. Try again later!'']"
proof -
  have s: "Trim ''sports'' '' '' = ''sports''" "Trim [] '' '' = []"
    by (simp_all add: Trim_def TrimLeft_def TrimRight_def)
  have h1: "newsSource example_bot (section_of ''sports'') 3 = Inl ErrInvalidSection"
    by (simp add: s example_bot_def NewBot_def TopStories_def example_nyt_def)
  have h2: "newsSource example_bot (section_of []) 3 = Inl (nyttop (nyttop_failure ''timeout''))"
    by (simp add: s example_bot_def NewBot_def TopStories_def example_nyt_def)
  from fetch_failure_message [OF h1, of "''C1''" "''https://hooks.example/r''"]
       fetch_failure_message [OF h2, of "''C1''" "''https://hooks.example/r''"]
  show ?thesis by simp
qed

section \<open>Routing of the command text\<close>

lemma takeWhile_replicate:
  "takeWhile (\<lambda>c. c \<in> set [a]) xs = replicate (length (takeWhile (\<lambda>c. c \<in> set [a]) xs)) a"
  by (induction xs) simp_all

lemma Trim_space_decomp:
  "\<exists>n m. s = replicate n (CHR '' '') @ Trim s '' '' @ replicate m (CHR '' '')"
proof -
  let ?l = "takeWhile (\<lambda>c. c \<in> set '' '') (TrimRight s '' '')"
  let ?r = "takeWhile (\<lambda>c. c \<in> set '' '') (rev s)"
  have "s = ?l @ Trim s '' '' @ rev ?r" by (rule Trim_decomp)
  moreover have "?l = replicate (length ?l) (CHR '' '')" by (rule takeWhile_replicate)
  moreover have "?r = replicate (length ?r) (CHR '' '')" by (rule takeWhile_replicate)
  ultimately have "s = replicate (length ?l) (CHR '' '') @ Trim s '' '' @
                       rev (replicate (length ?r) (CHR '' ''))" by simp
  then have "s = replicate (length ?l) (CHR '' '') @ Trim s '' '' @
                 replicate (length ?r) (CHR '' '')" by (simp only: rev_replicate)
  then show ?thesis by blast
qed

lemma fetches_processCommand_stories:
  "fetches (processCommand b channelID responseURL (''stories'' @ rest)) = [(section_of rest, 3)]"
  by (simp add: processCommand_def HasPrefix_def fetches_handleTopRequest)

lemma HasPrefix_stories: "HasPrefix params ''stories'' \<longleftrightarrow> take 7 params = ''stories''"
proof -
  have "length ''stories'' = 7" by simp
  then show ?thesis by (simp only: HasPrefix_def)
qed

text \<open>
  Claim C1, as the code has it. A lower-cased text that starts with \<open>stories\<close> goes to
  \<open>handleTopRequest\<close> with the rest of the text, and the section asked for is that rest
  without its leading and trailing space characters (U+0020), \<open>home\<close> standing in for an
  empty result; no other character is trimmed. Every other text, the empty one among
  them, goes to \<open>handleHelpRequest\<close> and asks the news source for nothing. The text that
  an accepted slash command hands to \<open>processCommand\<close> is its lower-cased text.
\<close>

theorem command_routing:
  "(HasPrefix params ''stories'' \<longrightarrow>
      params = ''stories'' @ drop 7 params
      \<and> processCommand b channelID responseURL params =
          handleTopRequest b channelID responseURL (drop 7 params)
      \<and> fetches (processCommand b channelID responseURL params) =
          [(if Trim (drop 7 params) '' '' = [] then ''home'' else Trim (drop 7 params) '' '', 3)]
      \<and> (\<exists>n m. drop 7 params =
             replicate n (CHR '' '') @ Trim (drop 7 params) '' '' @ replicate m (CHR '' ''))
      \<and> (Trim (drop 7 params) '' '' \<noteq> [] \<longrightarrow>
            hd (Trim (drop 7 params) '' '') \<noteq> CHR '' '' \<and>
            last (Trim (drop 7 params) '' '') \<noteq> CHR '' ''))
   \<and> (\<not> HasPrefix params ''stories'' \<longrightarrow>
        processCommand b channelID responseURL params = handleHelpRequest b channelID responseURL
        \<and> fetches (processCommand b channelID responseURL params) = [])
   \<and> processCommand b channelID responseURL [] = handleHelpRequest b channelID responseURL
   \<and> (SlashCommandParse lib r = Inr s \<and> Token s = slackVerificationToken b \<and>
        Command s = ''/news'' \<longrightarrow>
        started (HandleSlashCommand lib b r) =
          [go_processCommand (ChannelID s) (ResponseURL s) (ToLower lib (Text s))])"
proof (intro conjI impI)
  assume p: "HasPrefix params ''stories''"
  then have "take 7 params = ''stories''" by (simp only: HasPrefix_stories)
  then have "take 7 params @ drop 7 params = ''stories'' @ drop 7 params" by (rule arg_cong)
  then show eq: "params = ''stories'' @ drop 7 params" by (simp only: append_take_drop_id)
  show "processCommand b channelID responseURL params =
          handleTopRequest b channelID responseURL (drop 7 params)"
    using p by (simp add: processCommand_def)
  then show "fetches (processCommand b channelID responseURL params) =
          [(if Trim (drop 7 params) '' '' = [] then ''home'' else Trim (drop 7 params) '' '', 3)]"
    by (simp only: fetches_handleTopRequest)
  show "\<exists>n m. drop 7 params =
             replicate n (CHR '' '') @ Trim (drop 7 params) '' '' @ replicate m (CHR '' '')"
    by (rule Trim_space_decomp)
next
  assume "Trim (drop 7 params) '' '' \<noteq> []"
  then show "hd (Trim (drop 7 params) '' '') \<noteq> CHR '' ''"
    using Trim_hd [of "drop 7 params" "'' ''"] by simp
next
  assume "Trim (drop 7 params) '' '' \<noteq> []"
  then show "last (Trim (drop 7 params) '' '') \<noteq> CHR '' ''"
    using Trim_last [of "drop 7 params" "'' ''"] by simp
next
  assume "\<not> HasPrefix params ''stories''"
  then show h: "processCommand b channelID responseURL params =
                handleHelpRequest b channelID responseURL"
    by (simp add: processCommand_def)
  then show "fetches (processCommand b channelID responseURL params) = []"
    by (simp only: fetches_handleHelpRequest)
next
  show "processCommand b channelID responseURL [] = handleHelpRequest b channelID responseURL"
    by (simp add: processCommand_def HasPrefix_def)
next
  assume "SlashCommandParse lib r = Inr s \<and> Token s = slackVerificationToken b \<and>
          Command s = ''/news''"
  then show "started (HandleSlashCommand lib b r) =
          [go_processCommand (ChannelID s) (ResponseURL s) (ToLower lib (Text s))]"
    by (simp add: HandleSlashCommand_def ValidateToken_def)
qed

theorem command_routing_witness:
  "fetches (processCommand example_bot ''C1'' ''https://hooks.example/r'' ''stories  arts '')
     = [(''arts'', 3)]
   \<and> processCommand example_bot ''C1'' ''https://hooks.example/r'' ''help'' =
       handleHelpRequest example_bot ''C1'' ''https://hooks.example/r''
   \<and> started (HandleSlashCommand example_lib example_bot
                 (example_slash ''secret'' ''/news'' ''Stories  ARTS '')) =
       [go_processCommand ''C1'' ''https://hooks.example/r'' ''stories  arts '']"
proof -
  have t: "Trim ''  arts '' '' '' = ''arts''"
    by (simp add: Trim_def TrimLeft_def TrimRight_def)
  have l: "ToLower_ascii ''Stories  ARTS '' = ''stories  arts ''"
    by code_simp
  have v: "SlashCommandParse example_lib (example_slash ''secret'' ''/news'' ''Stories  ARTS '')
             = Inr \<lparr>Token = ''secret'', Command = ''/news'', ChannelID = ''C1'',
                    ResponseURL = ''https://hooks.example/r'', Text = ''Stories  ARTS ''\<rparr>
           \<and> Token \<lparr>Token = ''secret'', Command = ''/news'', ChannelID = ''C1'',
                    ResponseURL = ''https://hooks.example/r'', Text = ''Stories  ARTS ''\<rparr>
             = slackVerificationToken example_bot
           \<and> Command \<lparr>Token = ''secret'', Command = ''/news'', ChannelID = ''C1'',
                    ResponseURL = ''https://hooks.example/r'', Text = ''Stories  ARTS ''\<rparr>
             = ''/news''"
    by (simp add: example_lib_def example_slash_def example_bot_def NewBot_def)
  have p: "HasPrefix ''stories  arts '' ''stories''"
    by (simp add: HasPrefix_def)
  have q: "\<not> HasPrefix ''help'' ''stories''"
    by (simp add: HasPrefix_def)
  note to_top = command_routing [of "''stories  arts ''" example_bot "''C1''"
         "''https://hooks.example/r''" example_lib
         "example_slash ''secret'' ''/news'' ''Stories  ARTS ''"
         "\<lparr>Token = ''secret'', Command = ''/news'', ChannelID = ''C1'',
           ResponseURL = ''https://hooks.example/r'', Text = ''Stories  ARTS ''\<rparr>",
         THEN conjunct1, THEN mp, OF p]
  note to_help = command_routing [of "''help''" example_bot "''C1''"
         "''https://hooks.example/r''" example_lib
         "example_slash ''secret'' ''/news'' ''Stories  ARTS ''"
         "\<lparr>Token = ''secret'', Command = ''/news'', ChannelID = ''C1'',
           ResponseURL = ''https://hooks.example/r'', Text = ''Stories  ARTS ''\<rparr>",
         THEN conjunct2, THEN conjunct1, THEN mp, OF q]
  note spawned = command_routing [of "''help''" example_bot "''C1''"
         "''https://hooks.example/r''" example_lib
         "example_slash ''secret'' ''/news'' ''Stories  ARTS ''"
         "\<lparr>Token = ''secret'', Command = ''/news'', ChannelID = ''C1'',
           ResponseURL = ''https://hooks.example/r'', Text = ''Stories  ARTS ''\<rparr>",
         THEN conjunct2, THEN conjunct2, THEN conjunct2, THEN mp, OF v]
  from to_top [THEN conjunct2, THEN conjunct2, THEN conjunct1]
  have a: "fetches (processCommand example_bot ''C1'' ''https://hooks.example/r''
             ''stories  arts '') = [(''arts'', 3)]"
    by (simp add: t)
  from to_help [THEN conjunct1]
  have b: "processCommand example_bot ''C1'' ''https://hooks.example/r'' ''help'' =
           handleHelpRequest example_bot ''C1'' ''https://hooks.example/r''" .
  from spawned
  have c: "started (HandleSlashCommand example_lib example_bot
                 (example_slash ''secret'' ''/news'' ''Stories  ARTS '')) =
       [go_processCommand ''C1'' ''https://hooks.example/r'' ''stories  arts '']"
    by (simp add: l example_lib_def)
  from a b c show ?thesis by simp
qed

text \<open>
  Claim C1 as it is written fails on a tab: the text \<open>stories\<close>, tab, \<open>arts\<close> is in lower
  case and starts with \<open>stories\<close>; trimming whitespace from the rest gives \<open>arts\<close>, but
  the section the code asks for is the rest as it is, tab included.
\<close>

theorem command_routing_tab_counterexample:
  "ToLower_ascii (''stories'' @ [CHR 0x09] @ ''arts'') = ''stories'' @ [CHR 0x09] @ ''arts''
   \<and> HasPrefix (''stories'' @ [CHR 0x09] @ ''arts'') ''stories''
   \<and> spec_trim_whitespace (drop 7 (''stories'' @ [CHR 0x09] @ ''arts'')) = ''arts''
   \<and> fetches (processCommand example_bot ''C1'' ''https://hooks.example/r''
                (''stories'' @ [CHR 0x09] @ ''arts'')) = [([CHR 0x09] @ ''arts'', 3)]
   \<and> fetches (processCommand example_bot ''C1'' ''https://hooks.example/r''
                (''stories'' @ [CHR 0x09] @ ''arts''))
       \<noteq> [(spec_trim_whitespace (drop 7 (''stories'' @ [CHR 0x09] @ ''arts'')), 3)]"
proof -
  have t: "Trim ([CHR 0x09] @ ''arts'') '' '' = [CHR 0x09] @ ''arts''"
    by (simp add: Trim_def TrimLeft_def TrimRight_def)
  have w: "spec_trim_whitespace ([CHR 0x09] @ ''arts'') = ''arts''"
    by (simp add: spec_trim_whitespace_def spec_whitespace_def)
  have f: "fetches (processCommand example_bot ''C1'' ''https://hooks.example/r''
                (''stories'' @ ([CHR 0x09] @ ''arts''))) = [([CHR 0x09] @ ''arts'', 3)]"
    unfolding fetches_processCommand_stories using t by simp
  show ?thesis
    using f w by (simp add: ToLower_ascii_def HasPrefix_def)
qed

section \<open>The default section\<close>

text \<open>
  Claim C2, as the code has it. When the rest of the text after \<open>stories\<close> is empty or
  holds space characters (U+0020) only, the section asked for is \<open>home\<close>.
\<close>

theorem blank_section_is_home:
  assumes "set rest \<subseteq> {CHR '' ''}"
  shows "fetches (processCommand b channelID responseURL (''stories'' @ rest)) = [(''home'', 3)]"
proof -
  from assms have "set rest \<subseteq> set '' ''" by simp
  then have "Trim rest '' '' = []" by (simp only: Trim_Nil_iff)
  then show ?thesis unfolding fetches_processCommand_stories by simp
qed

theorem blank_section_is_home_witness:
  "fetches (processCommand example_bot ''C1'' ''https://hooks.example/r'' ''stories   '')
     = [(''home'', 3)]
   \<and> fetches (processCommand example_bot ''C1'' ''https://hooks.example/r'' ''stories'')
     = [(''home'', 3)]"
proof -
  have "set ''   '' \<subseteq> {CHR '' ''}" by simp
  from blank_section_is_home [OF this, of example_bot "''C1''" "''https://hooks.example/r''"]
  have a: "fetches (processCommand example_bot ''C1'' ''https://hooks.example/r''
             ''stories   '') = [(''home'', 3)]" by simp
  have "set [] \<subseteq> {CHR '' ''}" by simp
  from blank_section_is_home [OF this, of example_bot "''C1''" "''https://hooks.example/r''"]
  have b: "fetches (processCommand example_bot ''C1'' ''https://hooks.example/r''
             ''stories'') = [(''home'', 3)]" by simp
  from a b show ?thesis by simp
qed

text \<open>
  Claim C2 as it is written fails on a line feed: the rest of the text \<open>stories\<close>, space,
  line feed is whitespace only, and the section the code asks for is the line feed, not
  \<open>home\<close>.
\<close>

theorem blank_section_newline_counterexample:
  "list_all spec_whitespace (drop 7 (''stories '' @ [CHR 0x0A]))
   \<and> fetches (processCommand example_bot ''C1'' ''https://hooks.example/r''
                (''stories '' @ [CHR 0x0A])) = [([CHR 0x0A], 3)]
   \<and> fetches (processCommand example_bot ''C1'' ''https://hooks.example/r''
                (''stories '' @ [CHR 0x0A])) \<noteq> [(''home'', 3)]"
proof -
  have t: "Trim ('' '' @ [CHR 0x0A]) '' '' = [CHR 0x0A]"
    by (simp add: Trim_def TrimLeft_def TrimRight_def)
  have f: "fetches (processCommand example_bot ''C1'' ''https://hooks.example/r''
                (''stories'' @ ('' '' @ [CHR 0x0A]))) = [([CHR 0x0A], 3)]"
    unfolding fetches_processCommand_stories using t by simp
  show ?thesis
    using f by (simp add: spec_whitespace_def)
qed

section \<open>The status of the HTTP response\<close>

text \<open>
  Claim C6. \<open>HandleSlashCommand\<close> answers 500 when the body does not parse, else 401 when
  the token is not the configured one, else 400 when the command is not \<open>/news\<close>, else
  200. \<open>HandleHelpInteraction\<close> answers 400 when the form or the payload does not parse,
  else 401 when the token is not the configured one, else 400 when the number of actions
  is not 1, else 200. Neither writes a body, and a task is started exactly when the
  status is 200.
\<close>

theorem handler_status:
  "StatusCode (HandleSlashCommand lib b r) =
     (case SlashCommandParse lib r of
        Inl err \<Rightarrow> 500
      | Inr s \<Rightarrow>
          if Token s \<noteq> slackVerificationToken b then 401
          else if Command s \<noteq> ''/news'' then 400
          else 200)
   \<and> Body (HandleSlashCommand lib b r) = []
   \<and> (started (HandleSlashCommand lib b r) \<noteq> []) = (StatusCode (HandleSlashCommand lib b r) = 200)
   \<and> StatusCode (HandleHelpInteraction lib b r) =
     (case ParseForm lib r of
        Inl err \<Rightarrow> 400
      | Inr PostForm \<Rightarrow>
          (case json_Unmarshal lib (Get PostForm ''payload'') of
             Inl err \<Rightarrow> 400
           | Inr interaction \<Rightarrow>
               if ic_Token interaction \<noteq> slackVerificationToken b then 401
               else if length (BlockActions (ic_ActionCallback interaction)) \<noteq> 1 then 400
               else 200))
   \<and> Body (HandleHelpInteraction lib b r) = []
   \<and> (started (HandleHelpInteraction lib b r) \<noteq> []) =
       (StatusCode (HandleHelpInteraction lib b r) = 200)"
  by (simp add: HandleSlashCommand_def HandleHelpInteraction_def ValidateToken_def Let_def
           split: sum.split)

lemma example_values:
  "slackVerificationToken example_bot = ''secret''"
  "SlashCommandParse example_lib (example_slash tok cmd txt) =
     Inr \<lparr>Token = tok, Command = cmd, ChannelID = ''C1'',
          ResponseURL = ''https://hooks.example/r'', Text = txt\<rparr>"
  "SlashCommandParse example_lib (example_callback payload) = Inl (OtherError ''no slash command'')"
  "ParseForm example_lib (example_slash tok cmd txt) = Inl (OtherError ''no form'')"
  "ParseForm example_lib (example_callback payload) = Inr [(''payload'', [payload])]"
  "Get [(''payload'', [payload])] ''payload'' = payload"
  "ToLower example_lib = ToLower_ascii"
  by (simp_all add: example_bot_def NewBot_def example_lib_def example_slash_def
        example_callback_def Get_def)

lemma example_payloads:
  "json_Unmarshal example_lib ''one-action'' = Inr (example_interaction ''secret'' [''arts''])"
  "json_Unmarshal example_lib ''no-action'' = Inr (example_interaction ''secret'' [])"
  "json_Unmarshal example_lib ''two-actions'' =
     Inr (example_interaction ''secret'' [''arts'', ''home''])"
  "json_Unmarshal example_lib ''bad-token'' = Inr (example_interaction ''guess'' [''arts''])"
  "json_Unmarshal example_lib ''{'' = Inl (OtherError ''unexpected end of JSON input'')"
  by (simp_all add: example_lib_def)

lemma example_interaction_fields:
  "ic_Token (example_interaction tok vals) = tok"
  "ic_ResponseURL (example_interaction tok vals) = ''https://hooks.example/r''"
  "container_ChannelID (ic_Container (example_interaction tok vals)) = ''C1''"
  "BlockActions (ic_ActionCallback (example_interaction tok vals)) =
     map (\<lambda>v. \<lparr>SelectedOption = OptionBlockObject (TextBlockObject ''plain_text'' v) v\<rparr>) vals"
  by (simp_all add: example_interaction_def)

theorem handler_status_witness:
  "StatusCode (HandleSlashCommand example_lib example_bot (example_callback ''one-action'')) = 500
   \<and> StatusCode (HandleSlashCommand example_lib example_bot
                   (example_slash ''guess'' ''/news'' ''stories'')) = 401
   \<and> StatusCode (HandleSlashCommand example_lib example_bot
                   (example_slash ''secret'' ''/weather'' ''stories'')) = 400
   \<and> StatusCode (HandleSlashCommand example_lib example_bot
                   (example_slash ''secret'' ''/news'' ''stories'')) = 200
   \<and> StatusCode (HandleHelpInteraction example_lib example_bot
                   (example_slash ''secret'' ''/news'' ''stories'')) = 400
   \<and> StatusCode (HandleHelpInteraction example_lib example_bot (example_callback ''{'')) = 400
   \<and> StatusCode (HandleHelpInteraction example_lib example_bot (example_callback ''bad-token''))
       = 401
   \<and> StatusCode (HandleHelpInteraction example_lib example_bot (example_callback ''no-action''))
       = 400
   \<and> StatusCode (HandleHelpInteraction example_lib example_bot (example_callback ''two-actions''))
       = 400
   \<and> StatusCode (HandleHelpInteraction example_lib example_bot (example_callback ''one-action''))
       = 200"
proof -
  note st = handler_status [of example_lib example_bot, THEN conjunct1]
  note sh = handler_status [of example_lib example_bot, THEN conjunct2, THEN conjunct2,
              THEN conjunct2, THEN conjunct1]
  show ?thesis
    unfolding st sh
    by (simp add: example_values example_payloads example_interaction_fields)
qed

section \<open>Rejected requests\<close>

text \<open>
  Claim C7, as the code has it. A slash command or an interactive callback whose token is
  not the configured one is answered 401, and an interactive callback with the right
  token and a number of actions other than 1 is answered 400; in each case no task is
  started and no message is posted. The handler does one more thing than set the
  status: it writes a line to the process log.
\<close>

theorem rejected_requests:
  "(SlashCommandParse lib r = Inr s \<and> Token s \<noteq> slackVerificationToken b \<longrightarrow>
      HandleSlashCommand lib b r =
        \<lparr>StatusCode = 401, Body = [], logged = [Println [Str ''invalid token'']], started = []\<rparr>
      \<and> trace b (HandleSlashCommand lib b r) = [Println [Str ''invalid token'']]
      \<and> posts (trace b (HandleSlashCommand lib b r)) = [])
   \<and> (ParseForm lib r = Inr PostForm \<and>
       json_Unmarshal lib (Get PostForm ''payload'') = Inr interaction \<and>
       ic_Token interaction \<noteq> slackVerificationToken b \<longrightarrow>
      HandleHelpInteraction lib b r =
        \<lparr>StatusCode = 401, Body = [], logged = [Println [Str ''invalid token'']], started = []\<rparr>
      \<and> trace b (HandleHelpInteraction lib b r) = [Println [Str ''invalid token'']]
      \<and> posts (trace b (HandleHelpInteraction lib b r)) = [])
   \<and> (ParseForm lib r = Inr PostForm \<and>
       json_Unmarshal lib (Get PostForm ''payload'') = Inr interaction \<and>
       ic_Token interaction = slackVerificationToken b \<and>
       length (BlockActions (ic_ActionCallback interaction)) \<noteq> 1 \<longrightarrow>
      HandleHelpInteraction lib b r =
        \<lparr>StatusCode = 400, Body = [],
         logged = [Println [Str ''unexpected amount of actions received'']], started = []\<rparr>
      \<and> trace b (HandleHelpInteraction lib b r) =
          [Println [Str ''unexpected amount of actions received'']]
      \<and> posts (trace b (HandleHelpInteraction lib b r)) = [])"
  by (simp add: HandleSlashCommand_def HandleHelpInteraction_def ValidateToken_def Let_def
        trace_def)

theorem rejected_requests_witness:
  "trace example_bot (HandleSlashCommand example_lib example_bot
                        (example_slash ''guess'' ''/news'' ''stories arts'')) =
     [Println [Str ''invalid token'']]
   \<and> HandleHelpInteraction example_lib example_bot (example_callback ''bad-token'') =
       \<lparr>StatusCode = 401, Body = [], logged = [Println [Str ''invalid token'']], started = []\<rparr>
   \<and> HandleHelpInteraction example_lib example_bot (example_callback ''two-actions'') =
       \<lparr>StatusCode = 400, Body = [],
        logged = [Println [Str ''unexpected amount of actions received'']], started = []\<rparr>
   \<and> posts (trace example_bot
              (HandleHelpInteraction example_lib example_bot (example_callback ''no-action''))) = []"
proof -
  have a: "SlashCommandParse example_lib (example_slash ''guess'' ''/news'' ''stories arts'') =
             Inr \<lparr>Token = ''guess'', Command = ''/news'', ChannelID = ''C1'',
                  ResponseURL = ''https://hooks.example/r'', Text = ''stories arts''\<rparr>
           \<and> Token \<lparr>Token = ''guess'', Command = ''/news'', ChannelID = ''C1'',
                  ResponseURL = ''https://hooks.example/r'', Text = ''stories arts''\<rparr>
             \<noteq> slackVerificationToken example_bot"
    by (simp add: example_values)
  have b: "ParseForm example_lib (example_callback ''bad-token'') = Inr [(''payload'', [''bad-token''])]
           \<and> json_Unmarshal example_lib (Get [(''payload'', [''bad-token''])] ''payload'') =
               Inr (example_interaction ''guess'' [''arts''])
           \<and> ic_Token (example_interaction ''guess'' [''arts'']) \<noteq> slackVerificationToken example_bot"
    by (simp add: example_values example_payloads example_interaction_fields)
  have c: "ParseForm example_lib (example_callback ''two-actions'') =
             Inr [(''payload'', [''two-actions''])]
           \<and> json_Unmarshal example_lib (Get [(''payload'', [''two-actions''])] ''payload'') =
               Inr (example_interaction ''secret'' [''arts'', ''home''])
           \<and> ic_Token (example_interaction ''secret'' [''arts'', ''home'']) =
               slackVerificationToken example_bot
           \<and> length (BlockActions (ic_ActionCallback
                 (example_interaction ''secret'' [''arts'', ''home'']))) \<noteq> 1"
    by (simp add: example_values example_payloads example_interaction_fields)
  have d: "ParseForm example_lib (example_callback ''no-action'') =
             Inr [(''payload'', [''no-action''])]
           \<and> json_Unmarshal example_lib (Get [(''payload'', [''no-action''])] ''payload'') =
               Inr (example_interaction ''secret'' [])
           \<and> ic_Token (example_interaction ''secret'' []) = slackVerificationToken example_bot
           \<and> length (BlockActions (ic_ActionCallback (example_interaction ''secret'' []))) \<noteq> 1"
    by (simp add: example_values example_payloads example_interaction_fields)
  note slash = rejected_requests [THEN conjunct1, THEN mp, OF a, THEN conjunct2, THEN conjunct1]
  note token = rejected_requests [THEN conjunct2, THEN conjunct1, THEN mp, OF b, THEN conjunct1]
  note two = rejected_requests [THEN conjunct2, THEN conjunct2, THEN mp, OF c, THEN conjunct1]
  note none = rejected_requests [THEN conjunct2, THEN conjunct2, THEN mp, OF d, THEN conjunct2,
                THEN conjunct2]
  show ?thesis
    using slash token two none by blast
qed

text \<open>
  Claim C7 as it is written fails on the log: for a slash command with a wrong token the
  status 401 is not the only thing the handler does, a line is logged as well.
\<close>

theorem rejected_request_logs_counterexample:
  "HandleSlashCommand example_lib example_bot (example_slash ''guess'' ''/news'' ''stories arts'')
     \<noteq> \<lparr>StatusCode = 401, Body = [], logged = [], started = []\<rparr>
   \<and> logged (HandleSlashCommand example_lib example_bot
                (example_slash ''guess'' ''/news'' ''stories arts'')) =
       [Println [Str ''invalid token'']]"
  by (simp add: HandleSlashCommand_def ValidateToken_def example_values)

section \<open>The interactive path and the text path\<close>




section \<open>Visibility of the messages\<close>

lemma ephemeral_PostMessage:
  "ephemeral (PostMessage b channelID options) =
     (responseType options = Some ResponseTypeEphemeral)"
  by (simp add: ephemeral_def posts_PostMessage)

lemma ephemeral_handleTopRequest: "ephemeral (handleTopRequest b channelID responseURL params)"
proof (cases "newsSource b (section_of params) 3")
  case (Inl err)
  show ?thesis
    by (simp add: ephemeral_def posts_handleTopRequest_Inl [OF Inl])
next
  case (Inr articles)
  show ?thesis
    by (simp add: ephemeral_def posts_handleTopRequest_Inr [OF Inr])
qed

lemma ephemeral_handleHelpRequest: "ephemeral (handleHelpRequest b channelID responseURL)"
  by (simp add: ephemeral_def posts_handleHelpRequest)

lemma ephemeral_processCommand: "ephemeral (processCommand b channelID responseURL params)"
  by (simp add: processCommand_def ephemeral_handleTopRequest ephemeral_handleHelpRequest)

lemma ephemeral_run: "ephemeral (run b t)"
  by (cases t) (simp_all add: ephemeral_processCommand ephemeral_handleTopRequest)

lemma posts_append: "posts (es @ es') = posts es @ posts es'"
  by (induction es rule: posts.induct) simp_all

lemma ephemeral_append: "ephemeral (es @ es') = (ephemeral es \<and> ephemeral es')"
  by (simp add: ephemeral_def posts_append)

lemma ephemeral_Nil: "ephemeral []"
  by (simp add: ephemeral_def)

lemma ephemeral_Println: "ephemeral [Println args]"
  by (simp add: ephemeral_def)

text \<open>
  Claim C9. Every message posted while a request is handled, by either handler and by
  the task it starts, is posted through the response URL with the ephemeral response
  type: the result of the top stories, the help menu and the error messages alike. No
  message is posted in the channel.
\<close>

theorem every_message_ephemeral:
  "ephemeral (trace b (HandleSlashCommand lib b r))
   \<and> ephemeral (trace b (HandleHelpInteraction lib b r'))
   \<and> ephemeral (run b t)
   \<and> map (responseType \<circ> snd) (posts (handleHelpRequest b channelID responseURL)) =
       [Some ResponseTypeEphemeral]
   \<and> map (responseType \<circ> snd) (posts (handleTopRequest b channelID responseURL params)) =
       [Some ResponseTypeEphemeral]"
proof (intro conjI)
  show "ephemeral (trace b (HandleSlashCommand lib b r))"
    by (simp add: trace_def HandleSlashCommand_def ephemeral_append ephemeral_Nil
          ephemeral_Println ephemeral_processCommand split: sum.split)
  show "ephemeral (trace b (HandleHelpInteraction lib b r'))"
    by (simp add: trace_def HandleHelpInteraction_def Let_def ephemeral_append ephemeral_Nil
          ephemeral_Println ephemeral_handleTopRequest split: sum.split)
  show "ephemeral (run b t)"
    by (rule ephemeral_run)
  show "map (responseType \<circ> snd) (posts (handleHelpRequest b channelID responseURL)) =
       [Some ResponseTypeEphemeral]"
    by (simp add: posts_handleHelpRequest)
  show "map (responseType \<circ> snd) (posts (handleTopRequest b channelID responseURL params)) =
       [Some ResponseTypeEphemeral]"
  proof (cases "newsSource b (section_of params) 3")
    case (Inl err)
    show ?thesis by (simp add: posts_handleTopRequest_Inl [OF Inl])
  next
    case (Inr articles)
    show ?thesis by (simp add: posts_handleTopRequest_Inr [OF Inr])
  qed
qed

theorem every_message_ephemeral_witness:
  "ephemeral (trace example_bot (HandleSlashCommand example_lib example_bot
                                   (example_slash ''secret'' ''/news'' ''stories arts'')))
   \<and> ephemeral (trace example_bot (HandleHelpInteraction example_lib example_bot
                                     (example_callback ''one-action'')))
   \<and> ephemeral (run example_bot (go_processCommand ''C1'' ''https://hooks.example/r'' ''help''))
   \<and> map (responseType \<circ> snd)
         (posts (handleHelpRequest example_bot ''C1'' ''https://hooks.example/r'')) =
       [Some ResponseTypeEphemeral]
   \<and> map (responseType \<circ> snd)
         (posts (handleTopRequest example_bot ''C1'' ''https://hooks.example/r'' ''sports'')) =
       [Some ResponseTypeEphemeral]"
  by (rule every_message_ephemeral)

end
